theory Spec2Isabelle
  imports Complex_Main "HOL-Library.AList" "HOL-Library.Sublist"
begin

section \<open>JavaScript strings\<close>

text \<open>
  A JavaScript string is a sequence of UTF-16 code units; \<open>length\<close>, \<open>substring\<close>,
  \<open>slice\<close>, \<open>startsWith\<close> and the regular expressions of \<open>server.js\<close> (none has the
  \<open>u\<close> flag) all count code units. The bullet glyph U+2022 that the parsers look for is
  one code unit and does not fit a byte, so a string is modelled as the list of its code
  units, each an integer between 0 and 65535.
\<close>

type_synonym jsstring = "int list"

definition js :: "string \<Rightarrow> jsstring" where
  \<comment> \<open>An ASCII literal of the source as a code-unit list.\<close>
  "js s = map of_char s"

definition is_upper :: "int \<Rightarrow> bool" where
  \<comment> \<open>\<open>[A-Z]\<close>\<close>
  "is_upper c = (65 \<le> c \<and> c \<le> 90)"

definition is_lower :: "int \<Rightarrow> bool" where
  \<comment> \<open>\<open>[a-z]\<close>\<close>
  "is_lower c = (97 \<le> c \<and> c \<le> 122)"

definition is_digit :: "int \<Rightarrow> bool" where
  \<comment> \<open>\<open>\d\<close>, which is \<open>[0-9]\<close>\<close>
  "is_digit c = (48 \<le> c \<and> c \<le> 57)"

definition is_ws :: "int \<Rightarrow> bool" where
  \<comment> \<open>\<open>\s\<close> and the characters \<open>trim\<close> strips: ECMAScript WhiteSpace and LineTerminator
     (TAB, LF, VT, FF, CR, SP, NBSP, U+1680, U+2000..U+200A, U+2028, U+2029, U+202F,
     U+205F, U+3000, U+FEFF).\<close>
  "is_ws c = ((9 \<le> c \<and> c \<le> 13) \<or> c = 32 \<or> c = 160 \<or> c = 5760
              \<or> (8192 \<le> c \<and> c \<le> 8202) \<or> c = 8232 \<or> c = 8233 \<or> c = 8239
              \<or> c = 8287 \<or> c = 12288 \<or> c = 65279)"

definition trim :: "jsstring \<Rightarrow> jsstring" where
  \<comment> \<open>\<open>String.prototype.trim\<close>\<close>
  "trim s = rev (dropWhile is_ws (rev (dropWhile is_ws s)))"

fun js_includes :: "jsstring \<Rightarrow> jsstring \<Rightarrow> bool" where
  \<comment> \<open>\<open>s.includes(p)\<close>: \<open>p\<close> occurs in \<open>s\<close> as a contiguous substring.\<close>
  "js_includes [] p = (p = [])"
| "js_includes (c # cs) p = (take (length p) (c # cs) = p \<or> js_includes cs p)"

definition startsWith :: "jsstring \<Rightarrow> jsstring \<Rightarrow> bool" where
  "startsWith s p = (take (length p) s = p)"

fun split_on :: "int \<Rightarrow> jsstring \<Rightarrow> jsstring list" where
  \<comment> \<open>\<open>s.split(sep)\<close> for a one-character separator: never empty, \<open>''.split(sep)\<close> is \<open>['']\<close>.\<close>
  "split_on sep [] = [[]]"
| "split_on sep (c # cs) =
     (if c = sep then [] # split_on sep cs
      else (case split_on sep cs of [] \<Rightarrow> [[c]] | l # ls \<Rightarrow> (c # l) # ls))"

fun join :: "jsstring \<Rightarrow> jsstring list \<Rightarrow> jsstring" where
  \<comment> \<open>\<open>xs.join(sep)\<close>\<close>
  "join sep [] = []"
| "join sep [x] = x"
| "join sep (x # y # ys) = x @ sep @ join sep (y # ys)"

section \<open>Header Normalizer\<close>

text \<open>
  \<^verbatim>\<open>
  function normalizeHeader(str) {
    return str.toLowerCase().replace(/&/g, 'and').replace(/[^a-z0-9 ]/g, '')
              .replace(/\s+/g, ' ').trim();
  }
  \<close>
\<close>

definition lower_unit :: "int \<Rightarrow> jsstring" where
  \<comment> \<open>\<open>toLowerCase\<close> on one code unit. Three kinds of character lower-case to something
     that contains an ASCII letter: \<open>A\<close>..\<open>Z\<close>, U+0130 (to \<open>i\<close> followed by U+0307) and the
     Kelvin sign U+212A (to \<open>k\<close>). Every other character lower-cases to characters outside
     ASCII; \<open>normalizeHeader\<close> deletes those in its next step but one, whatever they are, so
     they are left as they stand here.\<close>
  "lower_unit c =
     (if is_upper c then [c + 32]
      else if c = 304 then [105, 775]
      else if c = 8490 then [107]
      else [c])"

definition toLowerCase :: "jsstring \<Rightarrow> jsstring" where
  "toLowerCase s = concat (map lower_unit s)"

definition replace_amp :: "jsstring \<Rightarrow> jsstring" where
  \<comment> \<open>\<open>.replace(/&/g, 'and')\<close>\<close>
  "replace_amp s = concat (map (\<lambda>c. if c = 38 then js ''and'' else [c]) s)"

definition keep_unit :: "int \<Rightarrow> bool" where
  \<comment> \<open>what \<open>.replace(/[^a-z0-9 ]/g, '')\<close> leaves\<close>
  "keep_unit c = (is_lower c \<or> is_digit c \<or> c = 32)"

fun collapse_ws :: "jsstring \<Rightarrow> jsstring" where
  \<comment> \<open>\<open>.replace(/\s+/g, ' ')\<close>: every maximal run of white space becomes one space.\<close>
  "collapse_ws [] = []"
| "collapse_ws [c] = [if is_ws c then 32 else c]"
| "collapse_ws (c # d # cs) =
     (if is_ws c then (if is_ws d then collapse_ws (d # cs) else 32 # collapse_ws (d # cs))
      else c # collapse_ws (d # cs))"

definition normalizeHeader :: "jsstring \<Rightarrow> jsstring" where
  "normalizeHeader str = trim (collapse_ws (filter keep_unit (replace_amp (toLowerCase str))))"

abbreviation no_ws_run :: "jsstring \<Rightarrow> bool" where
  \<comment> \<open>no two white-space characters in a row\<close>
  "no_ws_run \<equiv> successively (\<lambda>a b. \<not> (is_ws a \<and> is_ws b))"

section \<open>Work Experience Parser\<close>

text \<open>
  \<open>cleanArray\<close>: \<open>Array.from(new Set(arr.map(trim).filter(Boolean)))\<close>. A \<open>Set\<close> keeps
  the first occurrence of every element, in insertion order.
\<close>

fun set_from :: "'a list \<Rightarrow> 'a list \<Rightarrow> 'a list" where
  \<comment> \<open>the elements added to a \<open>Set\<close> that already holds \<open>seen\<close>, in insertion order\<close>
  "set_from seen [] = []"
| "set_from seen (x # xs) =
     (if x \<in> set seen then set_from seen xs else x # set_from (x # seen) xs)"

definition cleanArray :: "jsstring list \<Rightarrow> jsstring list" where
  "cleanArray arr = set_from [] (filter (\<lambda>x. x \<noteq> []) (map trim arr))"

text \<open>
  The entry under construction is a JavaScript object whose keys appear as the lines set
  them: an absent key is \<open>None\<close>.
\<close>

record experience =
  title :: "jsstring option"
  organization :: "jsstring option"
  dates :: "jsstring option"
  location :: "jsstring option"
  summary :: "jsstring option"
  highlights :: "jsstring list option"

definition empty_experience :: experience where
  \<comment> \<open>\<open>{}\<close>\<close>
  "empty_experience = \<lparr>title = None, organization = None, dates = None, location = None,
     summary = None, highlights = None\<rparr>"

definition has_keys :: "experience \<Rightarrow> bool" where
  \<comment> \<open>\<open>Object.keys(currentExp).length > 0\<close>\<close>
  "has_keys e = (title e \<noteq> None \<or> organization e \<noteq> None \<or> dates e \<noteq> None
     \<or> location e \<noteq> None \<or> summary e \<noteq> None \<or> highlights e \<noteq> None)"

definition role_nouns :: "jsstring list" where
  "role_nouns = map js [''Engineer'', ''Developer'', ''Manager'', ''Director'', ''Lead'',
     ''Analyst'', ''Consultant'', ''Specialist'', ''Coordinator'', ''Assistant'', ''Intern'']"

definition title_class :: "int \<Rightarrow> bool" where
  \<comment> \<open>\<open>[a-zA-Z\s&]\<close>\<close>
  "title_class c = (is_lower c \<or> is_upper c \<or> is_ws c \<or> c = 38)"

fun title_tail :: "jsstring \<Rightarrow> bool" where
  \<comment> \<open>\<open>[a-zA-Z\s&]+(?:Engineer|...|Intern)\<close> matches at the start of the string: one
     character of the class, then a role noun at once or more of the same.\<close>
  "title_tail [] = False"
| "title_tail (c # cs) =
     (title_class c \<and> (list_ex (startsWith cs) role_nouns \<or> title_tail cs))"

definition is_title :: "jsstring \<Rightarrow> bool" where
  \<comment> \<open>\<open>/^[A-Z][a-zA-Z\s&]+(?:Engineer|...|Intern)/.test(line)\<close>\<close>
  "is_title line = (case line of [] \<Rightarrow> False | c # cs \<Rightarrow> is_upper c \<and> title_tail cs)"

fun paren_match :: "jsstring \<Rightarrow> jsstring option" where
  \<comment> \<open>group 1 of \<open>line.match(/\(([^)]+)\)/)\<close>: at the leftmost \<open>(\<close> that is followed by
     at least one character other than \<open>)\<close> and then by \<open>)\<close>, those characters.\<close>
  "paren_match [] = None"
| "paren_match (c # cs) =
     (if c = 40 \<and> takeWhile (\<lambda>d. d \<noteq> 41) cs \<noteq> [] \<and> dropWhile (\<lambda>d. d \<noteq> 41) cs \<noteq> []
      then Some (takeWhile (\<lambda>d. d \<noteq> 41) cs)
      else paren_match cs)"

fun four_digits :: "jsstring \<Rightarrow> bool" where
  \<comment> \<open>\<open>/\d{4}/.test(line)\<close>\<close>
  "four_digits (a # b # c # d # rest) =
     ((is_digit a \<and> is_digit b \<and> is_digit c \<and> is_digit d) \<or> four_digits (b # c # d # rest))"
| "four_digits _ = False"

definition ends_upper2 :: "jsstring \<Rightarrow> bool" where
  \<comment> \<open>\<open>/[A-Z]{2}$/.test(line)\<close>\<close>
  "ends_upper2 line = (case rev line of a # b # _ \<Rightarrow> is_upper a \<and> is_upper b | _ \<Rightarrow> False)"

definition falsy_string :: "jsstring option \<Rightarrow> bool" where
  \<comment> \<open>\<open>!x\<close> for a key that is absent or holds a string\<close>
  "falsy_string x = (x = None \<or> x = Some [])"

definition experience_line :: "experience list \<times> experience \<Rightarrow> jsstring \<Rightarrow> experience list \<times> experience" where
  \<comment> \<open>One turn of the \<open>for\<close> loop of \<open>parseWorkExperience\<close>, on \<open>(experiences, currentExp)\<close>.\<close>
  "experience_line st raw =
     (let experiences = fst st; currentExp = snd st; line = trim raw in
      if is_title line then
        ((if has_keys currentExp then experiences @ [currentExp] else experiences),
         empty_experience\<lparr>title := Some line\<rparr>)
      else if js_includes line (js ''('') \<and> js_includes line (js '')'') then
        (case paren_match line of
           Some m \<Rightarrow> (experiences, currentExp\<lparr>organization := Some m\<rparr>)
         | None \<Rightarrow> (experiences, currentExp))
      else if four_digits line \<and> (js_includes line (js ''Present'') \<or> js_includes line (js ''Current'')
                \<or> js_includes line (js ''-'') \<or> js_includes line (js ''to'')) then
        (experiences, currentExp\<lparr>dates := Some line\<rparr>)
      else if js_includes line (js '','') \<and> ends_upper2 line then
        (experiences, currentExp\<lparr>location := Some line\<rparr>)
      else if startsWith line [8226] \<or> startsWith line (js ''-'') \<or> startsWith line (js ''*'') then
        (experiences, currentExp\<lparr>highlights :=
           Some ((case highlights currentExp of None \<Rightarrow> [] | Some h \<Rightarrow> h) @ [trim (drop 1 line)])\<rparr>)
      else if length line > 20 \<and> falsy_string (summary currentExp) then
        (experiences, currentExp\<lparr>summary := Some line\<rparr>)
      else (experiences, currentExp))"

definition parseWorkExperience :: "jsstring \<Rightarrow> experience list" where
  "parseWorkExperience text =
     (if text = [] then []
      else
        (let lines = filter (\<lambda>line. trim line \<noteq> []) (split_on 10 text);
             st = foldl experience_line ([], empty_experience) lines;
             experiences = (if has_keys (snd st) then fst st @ [snd st] else fst st)
         in map (\<lambda>exp. exp\<lparr>highlights :=
                  Some (cleanArray (case highlights exp of None \<Rightarrow> [] | Some h \<Rightarrow> h))\<rparr>)
              experiences))"

section \<open>Skills Parser\<close>

text \<open>
  \<open>skills\<close> is a plain object used as a dictionary from category names to arrays. Its keys
  are \<open>'Other'\<close> and header lines without their colon, which start with a capital letter
  and hold letters and white space only; no property inherited from \<open>Object.prototype\<close>
  has such a name, so reading \<open>skills[currentCategory]\<close> finds own properties only. The
  object is modelled as the association list of its own properties in insertion order.
\<close>

type_synonym skills_map = "(jsstring \<times> jsstring list) list"

definition is_category_header :: "jsstring \<Rightarrow> bool" where
  \<comment> \<open>\<open>/^[A-Z][a-zA-Z\s]+:$/.test(trimmed)\<close>\<close>
  "is_category_header trimmed =
     (case trimmed of [] \<Rightarrow> False
      | c # cs \<Rightarrow> is_upper c \<and>
          (case rev cs of [] \<Rightarrow> False
           | l # mid \<Rightarrow> l = 58 \<and> mid \<noteq> [] \<and> list_all (\<lambda>d. is_lower d \<or> is_upper d \<or> is_ws d) mid))"

definition strip_bullet :: "jsstring \<Rightarrow> jsstring" where
  \<comment> \<open>\<open>.replace(/^[\<bullet>\-]\s*/, '')\<close>\<close>
  "strip_bullet s =
     (case s of [] \<Rightarrow> []
      | c # cs \<Rightarrow> if c = 8226 \<or> c = 45 then dropWhile is_ws cs else s)"

definition push_skills :: "skills_map \<Rightarrow> jsstring \<Rightarrow> jsstring list \<Rightarrow> skills_map" where
  \<comment> \<open>\<open>if (!skills[c]) skills[c] = []; skills[c].push(...xs)\<close>\<close>
  "push_skills skills c xs =
     AList.update c ((case map_of skills c of None \<Rightarrow> [] | Some ys \<Rightarrow> ys) @ xs) skills"

definition skills_line :: "skills_map \<times> jsstring \<Rightarrow> jsstring \<Rightarrow> skills_map \<times> jsstring" where
  \<comment> \<open>One turn of the \<open>for\<close> loop of \<open>parseSkills\<close>, on \<open>(skills, currentCategory)\<close>.\<close>
  "skills_line st line =
     (let skills = fst st; currentCategory = snd st; trimmed = trim line in
      if is_category_header trimmed then
        (AList.update (remove1 58 trimmed) [] skills, remove1 58 trimmed)
      else if js_includes trimmed (js '','') \<or> startsWith trimmed [8226] \<or> startsWith trimmed (js ''-'') then
        (push_skills skills currentCategory
           (filter (\<lambda>s. length s > 0) (map trim (split_on 44 (strip_bullet trimmed)))),
         currentCategory)
      else if length trimmed > 0 \<and> length trimmed < 50 then
        (push_skills skills currentCategory [trimmed], currentCategory)
      else (skills, currentCategory))"

definition parseSkills :: "jsstring \<Rightarrow> skills_map" where
  "parseSkills text =
     (if text = [] then []
      else
        (let lines = filter (\<lambda>line. trim line \<noteq> []) (split_on 10 text);
             st = foldl skills_line ([], js ''Other'') lines
         in map (\<lambda>(category, xs). (category, cleanArray xs)) (fst st)))"

section \<open>Section Segmenter\<close>

text \<open>
  \<open>sectionIndices\<close> is a plain object (\<open>{}\<close>) used as a dictionary from normalized names
  to line indices. Reading \<open>sectionIndices[section]\<close> follows the prototype chain, and a
  normalized name holds only the characters \<open>a-z\<close>, \<open>0-9\<close> and the space, so exactly one
  inherited property can be hit: \<open>Object.prototype.constructor\<close>, the function \<open>Object\<close>.
  A read therefore gives \<open>undefined\<close>, a line index, or that function.
\<close>

datatype slot = Undefined | Index nat | ObjectConstructor

type_synonym section_indices = "(jsstring \<times> nat) list"

definition read_index :: "section_indices \<Rightarrow> jsstring \<Rightarrow> slot" where
  \<comment> \<open>\<open>sectionIndices[section]\<close>\<close>
  "read_index sectionIndices section =
     (case map_of sectionIndices section of
        Some idx \<Rightarrow> Index idx
      | None \<Rightarrow> if section = js ''constructor'' then ObjectConstructor else Undefined)"

definition header_matches :: "jsstring \<Rightarrow> jsstring \<Rightarrow> bool" where
  "header_matches normalizedLine section =
     (normalizedLine = section \<or> js_includes normalizedLine section
      \<or> js_includes section normalizedLine)"

definition mark_section :: "jsstring \<Rightarrow> nat \<Rightarrow> section_indices \<Rightarrow> jsstring \<Rightarrow> section_indices" where
  \<comment> \<open>body of the inner \<open>forEach\<close>\<close>
  "mark_section normalizedLine idx sectionIndices section =
     (if header_matches normalizedLine section then
        (if read_index sectionIndices section = Undefined
         then AList.update section idx sectionIndices else sectionIndices)
      else sectionIndices)"

definition mark_line :: "jsstring list \<Rightarrow> section_indices \<Rightarrow> jsstring \<times> nat \<Rightarrow> section_indices" where
  \<comment> \<open>body of the outer \<open>forEach\<close>, on the line and its index\<close>
  "mark_line normalizedSectionNames sectionIndices l =
     foldl (mark_section (normalizeHeader (fst l)) (snd l)) sectionIndices normalizedSectionNames"

definition find_section_indices :: "jsstring list \<Rightarrow> jsstring list \<Rightarrow> section_indices" where
  "find_section_indices lines normalizedSectionNames =
     foldl (mark_line normalizedSectionNames) [] (zip lines [0..<length lines])"

definition js_gt :: "slot \<Rightarrow> slot \<Rightarrow> bool" where
  \<comment> \<open>\<open>a > b\<close>. A function operand converts to its source text: against a number that is
     \<open>NaN\<close>, and against the same function the two texts are equal; either way \<open>false\<close>.\<close>
  "js_gt a b = (case a of Index n \<Rightarrow> (case b of Index m \<Rightarrow> n > m | _ \<Rightarrow> False) | _ \<Rightarrow> False)"

fun find_end :: "slot \<Rightarrow> nat \<Rightarrow> slot list \<Rightarrow> nat" where
  \<comment> \<open>the \<open>for (let j = i + 1; ...)\<close> loop, on the slots of the later candidates\<close>
  "find_end startIdx endIdx [] = endIdx"
| "find_end startIdx endIdx (nextIdx # rest) =
     (if nextIdx \<noteq> Undefined \<and> js_gt nextIdx startIdx
      then (case nextIdx of Index n \<Rightarrow> n | _ \<Rightarrow> endIdx)
      else find_end startIdx endIdx rest)"

definition slice_start :: "slot \<Rightarrow> nat" where
  \<comment> \<open>the first argument of \<open>lines.slice(startIdx + 1, endIdx)\<close> as \<open>slice\<close> reads it. With
     the function \<open>Object\<close> for \<open>startIdx\<close>, \<open>startIdx + 1\<close> is a string that is no number, and
     \<open>slice\<close> takes \<open>NaN\<close> for 0.\<close>
  "slice_start startIdx = (case startIdx of Index s \<Rightarrow> s + 1 | _ \<Rightarrow> 0)"

definition slice :: "nat \<Rightarrow> nat \<Rightarrow> 'a list \<Rightarrow> 'a list" where
  \<comment> \<open>\<open>xs.slice(a, b)\<close> for \<open>0 \<le> a\<close> and \<open>0 \<le> b\<close>\<close>
  "slice a b xs = take (b - a) (drop a xs)"

definition section_text :: "jsstring list \<Rightarrow> section_indices \<Rightarrow> jsstring list \<Rightarrow> nat \<Rightarrow> jsstring \<Rightarrow> jsstring" where
  \<comment> \<open>the value stored in \<open>result[section]\<close> for the candidate at position \<open>i\<close>\<close>
  "section_text lines sectionIndices normalizedSectionNames i section =
     (let startIdx = read_index sectionIndices section in
      if startIdx \<noteq> Undefined then
        (let endIdx = find_end startIdx (length lines)
                        (map (read_index sectionIndices) (drop (i + 1) normalizedSectionNames))
         in trim (join (js ''\<newline>'') (slice (slice_start startIdx) endIdx lines)))
      else [])"

definition extractSectionsByLines :: "jsstring \<Rightarrow> jsstring list \<Rightarrow> (jsstring \<times> jsstring) list" where
  \<comment> \<open>The result object as the association list of its own properties, in the order of
     their first assignment.\<close>
  "extractSectionsByLines text sectionNames =
     (let lines = map trim (split_on 10 text);
          normalizedSectionNames = map normalizeHeader sectionNames;
          sectionIndices = find_section_indices lines normalizedSectionNames
      in foldl (\<lambda>result si. AList.update (fst si)
                  (section_text lines sectionIndices normalizedSectionNames (snd si) (fst si)) result)
           [] (zip normalizedSectionNames [0..<length normalizedSectionNames]))"

definition handler_sectionNames :: "jsstring list" where
  \<comment> \<open>\<open>const sectionNames = [...]\<close> of the \<open>/api/parse\<close> handler, the one caller\<close>
  "handler_sectionNames = map js
     [''Work Experience'', ''Professional Experience'', ''Founder & Product Experience'',
      ''Research Experience'', ''Experience'', ''Employment'', ''Positions'', ''Appointments'',
      ''Education'', ''Academic Background'', ''Academic Experience'',
      ''Skills'', ''Skills & Interests'', ''Technical Skills'', ''Core Competencies'',
      ''Laboratory & Fields'', ''Programming Languages'', ''Technologies'', ''Tools'',
      ''Frameworks'', ''Interests'']"

text \<open>
  What the specification says of the segmenter, in its own words and apart from the code:
  a line matches a candidate when its normalized form equals, contains, or is contained
  by the normalized candidate name; the first such line is the candidate's start; a
  candidate with no matched line yields the empty string.
\<close>

definition spec_header_match :: "jsstring \<Rightarrow> jsstring \<Rightarrow> bool" where
  "spec_header_match normalizedLine candidate =
     (normalizedLine = candidate \<or> sublist candidate normalizedLine
      \<or> sublist normalizedLine candidate)"

definition first_match :: "jsstring list \<Rightarrow> jsstring \<Rightarrow> nat \<Rightarrow> bool" where
  \<comment> \<open>line \<open>i\<close> is the first line that matches the normalized candidate\<close>
  "first_match lines candidate i =
     (i < length lines \<and> spec_header_match (normalizeHeader (lines ! i)) candidate
      \<and> (\<forall>j<i. \<not> spec_header_match (normalizeHeader (lines ! j)) candidate))"

definition unmatched_candidates_empty :: "jsstring \<Rightarrow> jsstring list \<Rightarrow> bool" where
  \<comment> \<open>every candidate has a key in the output, and a candidate that no line of the
     document matches has the empty string there\<close>
  "unmatched_candidates_empty text sectionNames =
     (\<forall>c\<in>set sectionNames.
        \<exists>v. map_of (extractSectionsByLines text sectionNames) (normalizeHeader c) = Some v
          \<and> ((\<forall>l\<in>set (map trim (split_on 10 text)).
                 \<not> spec_header_match (normalizeHeader l) (normalizeHeader c)) \<longrightarrow> v = []))"

definition first_match_is_start :: "jsstring \<Rightarrow> jsstring list \<Rightarrow> bool" where
  \<comment> \<open>for every candidate, the index of its first matching line is the start recorded
     for it, and its section is made of the lines after that line, up to some later line\<close>
  "first_match_is_start text sectionNames =
     (\<forall>c\<in>set sectionNames. \<forall>i.
        first_match (map trim (split_on 10 text)) (normalizeHeader c) i \<longrightarrow>
          map_of (find_section_indices (map trim (split_on 10 text)) (map normalizeHeader sectionNames))
            (normalizeHeader c) = Some i
          \<and> (\<exists>e>i. map_of (extractSectionsByLines text sectionNames) (normalizeHeader c)
                = Some (trim (join (js ''\<newline>'')
                    (take (e - Suc i) (drop (Suc i) (map trim (split_on 10 text))))))))"

section \<open>Digest Builder\<close>

text \<open>
  \<open>buildRelevantResumeText(sections, maxTotalLength)\<close>. The argument \<open>sections\<close> enters as
  \<open>Object.entries(sections)\<close>, the list of its (name, content) pairs. The loop pushes
  rendered blocks onto \<open>included\<close>; here it collects the (name, piece) pairs, and
  \<open>render_block\<close> renders them afterwards, which gives the same string.
\<close>

fun unique_nonempty :: "jsstring list \<Rightarrow> (jsstring \<times> jsstring) list \<Rightarrow> (jsstring \<times> jsstring) list" where
  \<comment> \<open>\<open>.filter(([k, v]) => v && v.trim().length > 0 && !seen.has(v.trim()) && seen.add(v.trim()))\<close>\<close>
  "unique_nonempty seen [] = []"
| "unique_nonempty seen (kv # rest) =
     (if snd kv \<noteq> [] \<and> length (trim (snd kv)) > 0 \<and> trim (snd kv) \<notin> set seen
      then kv # unique_nonempty (trim (snd kv) # seen) rest
      else unique_nonempty seen rest)"

definition longest_first :: "(jsstring \<times> jsstring) list \<Rightarrow> (jsstring \<times> jsstring) list" where
  \<comment> \<open>\<open>sectionEntries.sort((a, b) => b[1].length - a[1].length)\<close>; \<open>Array.prototype.sort\<close>
     is stable, as is insertion sort.\<close>
  "longest_first entries = sort_key (\<lambda>kv. - int (length (snd kv))) entries"

fun accumulate :: "int \<Rightarrow> int \<Rightarrow> (jsstring \<times> jsstring) list \<Rightarrow> (jsstring \<times> jsstring) list" where
  \<comment> \<open>the \<open>for\<close> loop from a given \<open>totalLength\<close>: the pairs it adds to \<open>included\<close>\<close>
  "accumulate maxTotalLength totalLength [] = []"
| "accumulate maxTotalLength totalLength (kv # rest) =
     (if totalLength + int (length (snd kv)) > maxTotalLength then
        (let allowed = maxTotalLength - totalLength in
         if allowed > 200 then [(fst kv, take (nat allowed) (snd kv))] else [])
      else kv # accumulate maxTotalLength (totalLength + int (length (snd kv))) rest)"

definition included_sections :: "(jsstring \<times> jsstring) list \<Rightarrow> int \<Rightarrow> (jsstring \<times> jsstring) list" where
  "included_sections sections maxTotalLength =
     accumulate maxTotalLength 0 (longest_first (unique_nonempty [] sections))"

definition render_block :: "jsstring \<times> jsstring \<Rightarrow> jsstring" where
  \<comment> \<open>\<open>`=== ${name} ===\n${content}`\<close>\<close>
  "render_block kv = js ''=== '' @ fst kv @ js '' ===\<newline>'' @ snd kv"

definition buildRelevantResumeText :: "(jsstring \<times> jsstring) list \<Rightarrow> int \<Rightarrow> jsstring" where
  "buildRelevantResumeText sections maxTotalLength =
     join (js ''\<newline>\<newline>'') (map render_block (included_sections sections maxTotalLength))"

definition content_length :: "(jsstring \<times> jsstring) list \<Rightarrow> nat" where
  \<comment> \<open>the characters of section content in a digest\<close>
  "content_length included = sum_list (map (\<lambda>kv. length (snd kv)) included)"

definition delimiter_overhead :: "(jsstring \<times> jsstring) list \<Rightarrow> nat" where
  \<comment> \<open>the characters of a digest that are not section content: \<open>=== name ===\n\<close> before each
     block and the blank line between two blocks\<close>
  "delimiter_overhead included =
     sum_list (map (\<lambda>kv. length (fst kv) + 9) included) + 2 * (length included - 1)"

section \<open>Result Assembler\<close>

text \<open>
  The external structuring output is whatever \<open>JSON.parse\<close> returns. A number is kept as
  the rational it denotes (\<open>-0\<close> as \<open>0\<close>): the handler only ever asks whether it is
  zero. An object is the association list of its own properties.
\<close>

datatype json =
    JNull
  | JBool bool
  | JNum rat
  | JStr jsstring
  | JArr "json list"
  | JObj "(jsstring \<times> json) list"

text \<open>
  The heuristic record \<open>parsed = { name, email, phone, location, work_experience,
  education, skills }\<close>. The fields of an education entry and the contact fields carry a
  prefix, since \<open>experience\<close> has fields of the same names.
\<close>

record education_entry =
  edu_degree :: "jsstring option"
  edu_institution :: "jsstring option"
  edu_dates :: "jsstring option"
  edu_location :: "jsstring option"
  edu_honors :: "jsstring option"

record parsed =
  p_name :: jsstring
  p_email :: jsstring
  p_phone :: jsstring
  p_location :: jsstring
  work_experience :: "experience list"
  education :: "education_entry list"
  skills :: skills_map

definition opt_field :: "string \<Rightarrow> jsstring option \<Rightarrow> (jsstring \<times> json) list" where
  \<comment> \<open>a key of an entry object, when it is set\<close>
  "opt_field k v = (case v of None \<Rightarrow> [] | Some x \<Rightarrow> [(js k, JStr x)])"

definition json_of_experience :: "experience \<Rightarrow> json" where
  \<comment> \<open>a work-experience entry as the JavaScript object it is\<close>
  "json_of_experience e =
     JObj (opt_field ''title'' (title e) @ opt_field ''organization'' (organization e)
           @ opt_field ''dates'' (dates e) @ opt_field ''location'' (location e)
           @ opt_field ''summary'' (summary e)
           @ (case highlights e of None \<Rightarrow> [] | Some h \<Rightarrow> [(js ''highlights'', JArr (map JStr h))]))"

definition json_of_education :: "education_entry \<Rightarrow> json" where
  "json_of_education e =
     JObj (opt_field ''degree'' (edu_degree e) @ opt_field ''institution'' (edu_institution e)
           @ opt_field ''dates'' (edu_dates e) @ opt_field ''location'' (edu_location e)
           @ opt_field ''honors'' (edu_honors e))"

definition json_of_skills :: "skills_map \<Rightarrow> json" where
  "json_of_skills m = JObj (map (\<lambda>kv. (fst kv, JArr (map JStr (snd kv)))) m)"

definition requiredKeys :: "jsstring list" where
  "requiredKeys = map js [''profile'', ''education'', ''positions'', ''publications'',
     ''projects'', ''skills'', ''awards'']"

definition parsedFallback :: "parsed \<Rightarrow> (jsstring \<times> json) list" where
  \<comment> \<open>\<open>parsed.name || ''\<close> is \<open>parsed.name\<close> for a string, and an array or an object is never
     falsy, so every \<open>||\<close> of the literal gives its left operand.\<close>
  "parsedFallback p =
     [(js ''profile'', JObj [(js ''name'', JStr (p_name p)), (js ''email'', JStr (p_email p)),
                             (js ''phone'', JStr (p_phone p)), (js ''location'', JStr (p_location p)),
                             (js ''summary'', JStr []), (js ''social'', JArr [])]),
      (js ''education'', JArr (map json_of_education (education p))),
      (js ''positions'', JArr (map json_of_experience (work_experience p))),
      (js ''publications'', JArr []),
      (js ''projects'', JArr []),
      (js ''skills'', json_of_skills (skills p)),
      (js ''awards'', JArr [])]"

text \<open>
  \<open>academicJson\<close> after the first \<open>if\<close> is an object: the fallback, the parsed object, or
  a parsed non-empty array, which then receives the patched keys as named properties
  beside its items (the properties are on the object in memory; serializing an array
  would not write them).
\<close>

datatype js_record =
    Record "(jsstring \<times> json) list"
  | ArrayWith "json list" "(jsstring \<times> json) list"

fun named_props :: "js_record \<Rightarrow> (jsstring \<times> json) list" where
  "named_props (Record ps) = ps"
| "named_props (ArrayWith xs ps) = ps"

definition get_key :: "js_record \<Rightarrow> jsstring \<Rightarrow> json option" where
  \<comment> \<open>\<open>key in r\<close> and \<open>r[key]\<close>, for a key that is neither an array index nor \<open>length\<close>
     nor inherited from a prototype, as the seven required keys are; \<open>None\<close> when the key
     is absent\<close>
  "get_key r key = map_of (named_props r) key"

fun set_key :: "js_record \<Rightarrow> jsstring \<Rightarrow> json \<Rightarrow> js_record" where
  \<comment> \<open>\<open>r[key] = v\<close>\<close>
  "set_key (Record ps) key v = Record (AList.update key v ps)"
| "set_key (ArrayWith xs ps) key v = ArrayWith xs (AList.update key v ps)"

datatype error = TypeError

fun truthy :: "json \<Rightarrow> bool" where
  "truthy JNull = False"
| "truthy (JBool b) = b"
| "truthy (JNum n) = (n \<noteq> 0)"
| "truthy (JStr s) = (s \<noteq> [])"
| "truthy (JArr xs) = True"
| "truthy (JObj ps) = True"

fun own_key_count :: "json \<Rightarrow> nat" where
  \<comment> \<open>\<open>Object.keys(v).length\<close> for a \<open>v\<close> that is not \<open>null\<close>: a string and an array have
     their indices for keys, a boolean and a number have none\<close>
  "own_key_count JNull = 0"
| "own_key_count (JBool b) = 0"
| "own_key_count (JNum n) = 0"
| "own_key_count (JStr s) = length s"
| "own_key_count (JArr xs) = length xs"
| "own_key_count (JObj ps) = length ps"

fun needs_fallback :: "json option \<Rightarrow> bool" where
  \<comment> \<open>\<open>!(key in academicJson) || academicJson[key] == null
       || (Array.isArray(v) && v.length === 0)
       || (typeof v === 'object' && Object.keys(v).length === 0)\<close>\<close>
  "needs_fallback None = True"
| "needs_fallback (Some JNull) = True"
| "needs_fallback (Some (JArr xs)) = (xs = [])"
| "needs_fallback (Some (JObj ps)) = (ps = [])"
| "needs_fallback (Some v) = False"

definition patch_key :: "(jsstring \<times> json) list \<Rightarrow> js_record \<Rightarrow> jsstring \<Rightarrow> js_record" where
  \<comment> \<open>body of \<open>for (const key of requiredKeys)\<close>. Every required key is a key of
     \<open>parsedFallback\<close>, so the lookup there never misses.\<close>
  "patch_key fallback r key =
     (if needs_fallback (get_key r key)
      then (case map_of fallback key of Some v \<Rightarrow> set_key r key v | None \<Rightarrow> r)
      else r)"

definition patch_keys :: "(jsstring \<times> json) list \<Rightarrow> js_record \<Rightarrow> js_record" where
  "patch_keys fallback r = foldl (patch_key fallback) r requiredKeys"

fun positions_empty :: "json option \<Rightarrow> bool" where
  \<comment> \<open>\<open>academicJson.positions == null || academicJson.positions.length === 0\<close>\<close>
  "positions_empty None = True"
| "positions_empty (Some JNull) = True"
| "positions_empty (Some (JStr s)) = (s = [])"
| "positions_empty (Some (JArr xs)) = (xs = [])"
| "positions_empty (Some (JObj ps)) = (map_of ps (js ''length'') = Some (JNum 0))"
| "positions_empty (Some v) = False"

definition positions_fallback :: "parsed \<Rightarrow> js_record \<Rightarrow> js_record" where
  \<comment> \<open>\<open>if ((... positions empty ...) && parsed.work_experience && parsed.work_experience.length > 0)
       academicJson.positions = parsed.work_experience\<close>\<close>
  "positions_fallback p r =
     (if positions_empty (get_key r (js ''positions'')) \<and> length (work_experience p) > 0
      then set_key r (js ''positions'') (JArr (map json_of_experience (work_experience p)))
      else r)"

definition patch_missing :: "json option \<Rightarrow> parsed \<Rightarrow> error + js_record" where
  \<comment> \<open>\<open>academicJson\<close> after the \<open>if (!academicJson || Object.keys(academicJson).length === 0)\<close>
     statement, fallback or patch loop. \<open>None\<close> is an \<open>academicJson\<close> that is \<open>undefined\<close>.
     On a non-empty string the loop's \<open>key in academicJson\<close> throws a \<open>TypeError\<close>; a
     boolean or a number has no keys and never reaches the loop.\<close>
  "patch_missing academicJson p =
     (case academicJson of
        None \<Rightarrow> Inr (Record (parsedFallback p))
      | Some v \<Rightarrow>
          if \<not> truthy v \<or> own_key_count v = 0
          then Inr (Record (parsedFallback p))
          else (case v of
                  JObj ps \<Rightarrow> Inr (patch_keys (parsedFallback p) (Record ps))
                | JArr xs \<Rightarrow> Inr (patch_keys (parsedFallback p) (ArrayWith xs []))
                | _ \<Rightarrow> Inl TypeError))"

definition assemble :: "json option \<Rightarrow> parsed \<Rightarrow> error + js_record" where
  \<comment> \<open>The handler from \<open>const requiredKeys\<close> to the positions fallback.\<close>
  "assemble academicJson p =
     (case patch_missing academicJson p of
        Inl e \<Rightarrow> Inl e
      | Inr r \<Rightarrow> Inr (positions_fallback p r))"

definition key_test_throws :: "json option \<Rightarrow> bool" where
  \<comment> \<open>the external output is a non-empty string, the one case where the handler reaches
     \<open>key in academicJson\<close> with a primitive value and throws\<close>
  "key_test_throws academicJson = (case academicJson of Some (JStr s) \<Rightarrow> s \<noteq> [] | _ \<Rightarrow> False)"

definition external_value :: "json option \<Rightarrow> jsstring \<Rightarrow> json option" where
  \<comment> \<open>the value the external output itself holds under a required key, if any\<close>
  "external_value academicJson key =
     (case academicJson of Some (JObj ps) \<Rightarrow> map_of ps key | _ \<Rightarrow> None)"

text \<open>
  What the specification says of the assembler, in its own words and apart from the code:
  the fallback is the profile built from the contact fields with empty summary and social
  links, education, positions and skills taken one to one from the heuristic lists, and
  publications, projects and awards empty; a required key takes its fallback when the
  external output's value for it is missing, null, an empty list or an empty mapping.
\<close>

definition spec_fallback :: "parsed \<Rightarrow> jsstring \<Rightarrow> json option" where
  \<comment> \<open>the heuristic-derived fallback of each of the seven required keys; \<open>None\<close> for any
     other key\<close>
  "spec_fallback p key =
     (if key = js ''profile'' then
        Some (JObj [(js ''name'', JStr (p_name p)), (js ''email'', JStr (p_email p)),
                    (js ''phone'', JStr (p_phone p)), (js ''location'', JStr (p_location p)),
                    (js ''summary'', JStr []), (js ''social'', JArr [])])
      else if key = js ''education'' then Some (JArr (map json_of_education (education p)))
      else if key = js ''positions'' then Some (JArr (map json_of_experience (work_experience p)))
      else if key = js ''skills'' then Some (json_of_skills (skills p))
      else if key = js ''publications'' \<or> key = js ''projects'' \<or> key = js ''awards''
      then Some (JArr [])
      else None)"

definition spec_missing :: "json option \<Rightarrow> bool" where
  \<comment> \<open>missing, null, an empty list, or an empty mapping\<close>
  "spec_missing v = (v = None \<or> v = Some JNull \<or> v = Some (JArr []) \<or> v = Some (JObj []))"

definition key_filled :: "json option \<Rightarrow> json \<Rightarrow> jsstring \<Rightarrow> js_record \<Rightarrow> bool" where
  \<comment> \<open>The assembled record \<open>r\<close> holds \<open>key\<close> with a value that is not \<open>null\<close>: the fallback
     \<open>fb\<close> when the external output's value \<open>ext\<close> for the key is missing, null or empty,
     and otherwise that value itself (or, for \<open>positions\<close> only, the fallback).\<close>
  "key_filled ext fb key r =
     (\<exists>v. get_key r key = Some v \<and> v \<noteq> JNull
        \<and> (spec_missing ext \<longrightarrow> v = fb)
        \<and> (\<not> spec_missing ext \<longrightarrow> ext = Some v \<or> (key = js ''positions'' \<and> v = fb)))"

section \<open>Properties of the Header Normalizer\<close>

lemma is_ws_space: "is_ws 32"
  by (simp add: is_ws_def)

lemma rtrim_Cons:
  "rev (dropWhile P (rev (x # xs))) =
     (if (\<forall>y\<in>set xs. P y) then (if P x then [] else [x]) else x # rev (dropWhile P (rev xs)))"
  by (simp add: dropWhile_append)

lemma rtrim_fixed:
  "xs = [] \<or> \<not> P (last xs) \<Longrightarrow> rev (dropWhile P (rev xs)) = xs"
  by (cases xs rule: rev_cases) auto

lemma rtrim_last:
  "rev (dropWhile P (rev xs)) = [] \<or> \<not> P (last (rev (dropWhile P (rev xs))))"
  by (metis hd_dropWhile last_rev rev_is_Nil_conv)

lemma rtrim_hd:
  "rev (dropWhile P (rev xs)) \<noteq> [] \<Longrightarrow> hd (rev (dropWhile P (rev xs))) = hd xs"
  by (induction xs) (auto simp: dropWhile_append split: if_splits)

lemma ltrim_fixed: "xs = [] \<or> \<not> P (hd xs) \<Longrightarrow> dropWhile P xs = xs"
  by (cases xs) auto

lemma trim_idem: "trim (trim s) = trim s"
proof -
  let ?a = "dropWhile is_ws s"
  let ?b = "rev (dropWhile is_ws (rev ?a))"
  have a: "?a = [] \<or> \<not> is_ws (hd ?a)"
    using hd_dropWhile by blast
  have "?b = [] \<or> \<not> is_ws (hd ?b)"
  proof (cases "?b = []")
    case False
    then have "?a \<noteq> []" and "hd ?b = hd ?a"
      using rtrim_hd [of is_ws ?a] by fastforce+
    with a show ?thesis by metis
  qed simp
  then have l: "dropWhile is_ws ?b = ?b"
    by (rule ltrim_fixed)
  have "rev (dropWhile is_ws (rev ?b)) = ?b"
    by (rule rtrim_fixed) (rule rtrim_last)
  with l show ?thesis
    by (simp add: trim_def)
qed

lemma set_trim: "set (trim s) \<subseteq> set s"
  unfolding trim_def by (metis set_dropWhileD set_rev subsetI)

lemma set_collapse_ws: "set (collapse_ws s) \<subseteq> insert 32 (set s)"
  by (induction s rule: collapse_ws.induct) auto

lemma keep_unit_space: "keep_unit 32"
  by (simp add: keep_unit_def)

lemma keep_normalizeHeader: "c \<in> set (normalizeHeader s) \<Longrightarrow> keep_unit c"
proof -
  assume "c \<in> set (normalizeHeader s)"
  then have "c \<in> set (collapse_ws (filter keep_unit (replace_amp (toLowerCase s))))"
    using set_trim unfolding normalizeHeader_def by blast
  then have "c = 32 \<or> c \<in> set (filter keep_unit (replace_amp (toLowerCase s)))"
    using set_collapse_ws by blast
  then show ?thesis
    using keep_unit_space by auto
qed

lemma lower_unit_keep: "keep_unit c \<Longrightarrow> lower_unit c = [c]"
  by (auto simp: keep_unit_def lower_unit_def is_lower_def is_digit_def is_upper_def)

lemma toLowerCase_keep: "\<forall>c\<in>set t. keep_unit c \<Longrightarrow> toLowerCase t = t"
  by (induction t) (simp_all add: toLowerCase_def lower_unit_keep)

lemma replace_amp_keep: "\<forall>c\<in>set t. keep_unit c \<Longrightarrow> replace_amp t = t"
  by (induction t) (auto simp: replace_amp_def keep_unit_def is_lower_def is_digit_def)

lemma keep_ws: "keep_unit c \<Longrightarrow> is_ws c \<Longrightarrow> c = 32"
  by (auto simp: keep_unit_def is_ws_def is_lower_def is_digit_def)

lemma collapse_ws_head:
  "collapse_ws (d # cs) \<noteq> [] \<and> is_ws (hd (collapse_ws (d # cs))) = is_ws d"
  by (induction "d # cs" arbitrary: d cs rule: collapse_ws.induct) (auto simp: is_ws_space)

lemma no_ws_run_collapse_ws: "no_ws_run (collapse_ws s)"
proof (induction s rule: collapse_ws.induct)
  case (3 c d cs)
  obtain h t where ht: "collapse_ws (d # cs) = h # t" and h: "is_ws h = is_ws d"
    using collapse_ws_head [of d cs] by (cases "collapse_ws (d # cs)") auto
  with 3 show ?case
    by (auto simp: successively_Cons is_ws_space)
qed simp_all

lemma no_ws_run_dropWhile: "no_ws_run xs \<Longrightarrow> no_ws_run (dropWhile P xs)"
  by (metis successively_append_iff takeWhile_dropWhile_id)

lemma no_ws_run_rtrim: "no_ws_run xs \<Longrightarrow> no_ws_run (rev (dropWhile P (rev xs)))"
proof -
  assume a: "no_ws_run xs"
  have "xs = rev (dropWhile P (rev xs)) @ rev (takeWhile P (rev xs))"
    by (metis rev_append rev_rev_ident takeWhile_dropWhile_id)
  with a show ?thesis
    by (metis successively_append_iff)
qed

lemma no_ws_run_trim: "no_ws_run xs \<Longrightarrow> no_ws_run (trim xs)"
  unfolding trim_def by (intro no_ws_run_rtrim no_ws_run_dropWhile)

lemma collapse_ws_fixed:
  "no_ws_run t \<Longrightarrow> \<forall>c\<in>set t. keep_unit c \<Longrightarrow> collapse_ws t = t"
  by (induction t rule: collapse_ws.induct) (auto simp: keep_ws successively_Cons)

text \<open>
  C9. The Header Normalizer is idempotent, \<open>normalize(normalize(s)) = normalize(s)\<close> for
  every string \<open>s\<close>, and insensitive to case and punctuation:
  \<open>normalize("Work  Experience!") = normalize("work experience")\<close>.
\<close>

theorem normalizeHeader_idempotent_and_insensitive:
  "normalizeHeader (normalizeHeader s) = normalizeHeader s
   \<and> normalizeHeader (js ''Work  Experience!'') = normalizeHeader (js ''work experience'')"
proof
  let ?t = "normalizeHeader s"
  have k: "\<forall>c\<in>set ?t. keep_unit c"
    using keep_normalizeHeader by blast
  have "filter keep_unit (replace_amp (toLowerCase ?t)) = ?t"
    using k by (simp add: toLowerCase_keep replace_amp_keep)
  moreover have "no_ws_run ?t"
    unfolding normalizeHeader_def by (intro no_ws_run_trim no_ws_run_collapse_ws)
  then have "collapse_ws ?t = ?t"
    using k by (rule collapse_ws_fixed)
  moreover have "trim ?t = ?t"
    unfolding normalizeHeader_def by (rule trim_idem)
  ultimately show "normalizeHeader ?t = ?t"
    by (simp add: normalizeHeader_def [of ?t])
next
  show "normalizeHeader (js ''Work  Experience!'') = normalizeHeader (js ''work experience'')"
    by code_simp
qed

section \<open>Properties of the parsers\<close>

text \<open>
  C3. The Work Experience Parser on the section
  \<open>"Senior Engineer\n(Acme Corp)\n2020 - Present\nAustin, TX\nThis is a long enough summary line.\n\<bullet> Built thing one\n\<bullet> Built thing one\n"\<close>
  (the bullet is the code unit 8226) returns exactly one entry, with title
  \<open>"Senior Engineer"\<close>, organization \<open>"Acme Corp"\<close>, dates \<open>"2020 - Present"\<close>, location
  \<open>"Austin, TX"\<close>, the long line as summary, and the single highlight
  \<open>"Built thing one"\<close>: the duplicate bullet is removed.
\<close>

theorem parseWorkExperience_round_trip:
  "parseWorkExperience
     (js ''Senior Engineer\<newline>(Acme Corp)\<newline>2020 - Present\<newline>Austin, TX\<newline>This is a long enough summary line.\<newline>''
      @ [8226] @ js '' Built thing one\<newline>'' @ [8226] @ js '' Built thing one\<newline>'')
   = [\<lparr>title = Some (js ''Senior Engineer''),
       organization = Some (js ''Acme Corp''),
       dates = Some (js ''2020 - Present''),
       location = Some (js ''Austin, TX''),
       summary = Some (js ''This is a long enough summary line.''),
       highlights = Some [js ''Built thing one'']\<rparr>]"
  by code_simp

text \<open>
  C10. A section without any title-like line can still produce an entry: on the single
  dates line \<open>"2020 - Present"\<close> the Work Experience Parser returns a non-empty list whose
  entry has no title. The line sets \<open>dates\<close> on the entry under construction, which is
  flushed at the end of the input.
\<close>

theorem parseWorkExperience_entry_without_title:
  "\<not> is_title (trim (js ''2020 - Present''))
   \<and> parseWorkExperience (js ''2020 - Present'')
       = [\<lparr>title = None, organization = None, dates = Some (js ''2020 - Present''),
           location = None, summary = None, highlights = Some []\<rparr>]"
  by code_simp

lemma skills_line_header_resets:
  "is_category_header (trim line) \<Longrightarrow>
   map_of (fst (skills_line (collected, currentCategory) line)) (remove1 58 (trim line)) = Some []"
  by (simp add: skills_line_def Let_def update_conv')

text \<open>
  C4. The claim is that a category header creates an empty list only when the category is
  absent, so that a repeated header keeps the skills already collected. The header branch
  of \<open>parseSkills\<close> assigns \<open>skills[currentCategory] = []\<close> without a test
  (\<open>skills_line_header_resets\<close>), while both other branches create the list only when it
  is absent: on \<open>"Languages:\nPython\nLanguages:\nGo\n"\<close> the skill \<open>Python\<close> is lost and
  only \<open>Go\<close> remains under \<open>Languages\<close>.
\<close>

theorem parseSkills_repeated_header_resets:
  "parseSkills (js ''Languages:\<newline>Python\<newline>Languages:\<newline>Go\<newline>'')
   = [(js ''Languages'', [js ''Go''])]"
  by code_simp

section \<open>Properties of the Digest Builder\<close>

lemma accumulate_bound:
  "t0 \<le> budget \<Longrightarrow> int (content_length (accumulate budget t0 xs)) \<le> budget - t0"
proof (induction xs arbitrary: t0)
  case Nil
  then show ?case by (simp add: content_length_def)
next
  case (Cons kv xs)
  show ?case
  proof (cases "t0 + int (length (snd kv)) > budget")
    case True
    then show ?thesis
      using Cons.prems by (simp add: content_length_def Let_def)
  next
    case False
    then have "int (content_length (accumulate budget (t0 + int (length (snd kv))) xs))
                 \<le> budget - (t0 + int (length (snd kv)))"
      by (intro Cons.IH) simp
    with False show ?thesis
      by (simp add: content_length_def)
  qed
qed

lemma length_render_block: "length (render_block kv) = length (fst kv) + 9 + length (snd kv)"
  by (simp add: render_block_def js_def)

lemma length_join_blocks:
  "length (join (js ''\<newline>\<newline>'') (map render_block inc)) = content_length inc + delimiter_overhead inc"
proof (induction inc rule: induct_list012)
  case 1
  then show ?case by (simp add: content_length_def delimiter_overhead_def)
next
  case (2 x)
  then show ?case by (simp add: content_length_def delimiter_overhead_def length_render_block)
next
  case (3 x y zs)
  have "length (join (js ''\<newline>\<newline>'') (map render_block (x # y # zs)))
        = length (render_block x) + 2 + length (join (js ''\<newline>\<newline>'') (map render_block (y # zs)))"
    by (simp add: js_def)
  with 3 show ?case
    by (simp add: content_length_def delimiter_overhead_def length_render_block)
qed

text \<open>
  C2. For every section map and every character budget \<open>B\<close> (a number of characters,
  handed to the loop as a JavaScript number), the section content included in the digest,
  counted without the \<open>=== name ===\<close> delimiters, never exceeds \<open>B\<close> characters; the
  rendered digest is that content plus the delimiters.
\<close>

theorem digest_budget:
  "content_length (included_sections sections (int budget)) \<le> budget
   \<and> length (buildRelevantResumeText sections (int budget))
       = content_length (included_sections sections (int budget))
         + delimiter_overhead (included_sections sections (int budget))"
proof
  have "int (content_length (accumulate (int budget) 0 (longest_first (unique_nonempty [] sections)))) \<le> int budget - 0"
    by (rule accumulate_bound) simp
  then show "content_length (included_sections sections (int budget)) \<le> budget"
    by (simp add: included_sections_def)
next
  show "length (buildRelevantResumeText sections (int budget))
       = content_length (included_sections sections (int budget))
         + delimiter_overhead (included_sections sections (int budget))"
    unfolding buildRelevantResumeText_def by (rule length_join_blocks)
qed

lemma trim_replicate: "\<not> is_ws c \<Longrightarrow> trim (replicate n c) = replicate n c"
  by (simp add: trim_def dropWhile_replicate)

lemma replicate_neq: "a \<noteq> b \<Longrightarrow> 0 < n \<Longrightarrow> replicate n a \<noteq> replicate m b"
  by (metis in_set_replicate empty_iff list.set(1) replicate_empty gr_implies_not0)

text \<open>
  C5. The claim is that a section too long for the remaining budget is included as a
  truncated prefix if and only if at least 200 characters of budget remain. The loop
  tests \<open>allowed > 200\<close>, under the comment \<open>Only include if at least 200 chars\<close>. With
  the handler's budget of 8000, a section of 7800 characters leaves exactly 200; a second
  section of 300 characters is then dropped whole, and the digest holds the first section
  only.
\<close>

theorem buildRelevantResumeText_exactly_200_dropped:
  "included_sections
     [(js ''experience'', replicate 7800 97), (js ''skills'', replicate 300 98)] 8000
     = [(js ''experience'', replicate 7800 97)]
   \<and> buildRelevantResumeText
       [(js ''experience'', replicate 7800 97), (js ''skills'', replicate 300 98)] 8000
     = js ''=== experience ===\<newline>'' @ replicate 7800 97"
proof -
  have w: "\<not> is_ws 97" "\<not> is_ws 98"
    by (simp_all add: is_ws_def)
  have ne: "replicate 300 (98::int) \<noteq> replicate 7800 97"
    by (simp add: replicate_neq)
  have e: "replicate 300 (98::int) \<noteq> []" "replicate 7800 (97::int) \<noteq> []"
    by simp_all
  have u: "unique_nonempty [] [(js ''experience'', replicate 7800 97), (js ''skills'', replicate 300 98)]
        = [(js ''experience'', replicate 7800 97), (js ''skills'', replicate 300 98)]"
    using ne e by (simp add: trim_replicate w)
  have l: "longest_first [(js ''experience'', replicate 7800 97), (js ''skills'', replicate 300 98)]
        = [(js ''experience'', replicate 7800 97), (js ''skills'', replicate 300 98)]"
    by (simp add: longest_first_def)
  have i: "included_sections
     [(js ''experience'', replicate 7800 97), (js ''skills'', replicate 300 98)] 8000
     = [(js ''experience'', replicate 7800 97)]"
    unfolding included_sections_def u l by simp
  show ?thesis
    unfolding buildRelevantResumeText_def i by (simp add: render_block_def js_def)
qed

section \<open>Properties of the Section Segmenter\<close>

text \<open>
  What the two loops do for every document and every candidate list. A candidate whose
  normalized name is not \<open>constructor\<close> gets exactly the index of the first matching line
  recorded (\<open>find_section_indices_first_match\<close>); for \<open>constructor\<close> nothing is ever
  recorded (\<open>find_section_indices_other\<close>). Every candidate gets a key in the result
  (\<open>extractSectionsByLines_keys\<close>), and an unmatched candidate other than \<open>constructor\<close>
  gets the empty string (\<open>extractSectionsByLines_unmatched\<close>). The handler's own
  candidate list does not hold the name \<open>constructor\<close> (\<open>handler_names_not_inherited\<close>).
  The code's matching test is the specification's (\<open>header_matches_spec\<close>).
\<close>

lemma read_index_Undefined:
  "(read_index si s = Undefined) = (map_of si s = None \<and> s \<noteq> js ''constructor'')"
  by (simp add: read_index_def split: option.splits)

lemma map_of_mark_section:
  "map_of (mark_section nl idx si a) s =
     (if s = a \<and> header_matches nl a \<and> read_index si a = Undefined then Some idx else map_of si s)"
  by (simp add: mark_section_def update_conv')

lemma map_of_mark_sections:
  "map_of (foldl (mark_section nl idx) si names) s =
     (if s \<in> set names \<and> header_matches nl s \<and> read_index si s = Undefined
      then Some idx else map_of si s)"
proof (induction names arbitrary: si)
  case Nil
  then show ?case by simp
next
  case (Cons a names)
  show ?case
    by (auto simp: Cons.IH map_of_mark_section read_index_Undefined)
qed

lemma foldl_zip_snoc:
  "foldl f a (zip (ls @ [l]) [0..<length (ls @ [l])]) = f (foldl f a (zip ls [0..<length ls])) (l, length ls)"
  by simp

lemma find_section_indices_snoc:
  "find_section_indices (ls @ [l]) names =
     foldl (mark_section (normalizeHeader l) (length ls)) (find_section_indices ls names) names"
  unfolding find_section_indices_def foldl_zip_snoc by (simp add: mark_line_def)

lemma first_match_snoc:
  "(i < length (ls @ [l]) \<and> Q ((ls @ [l]) ! i) \<and> (\<forall>j<i. \<not> Q ((ls @ [l]) ! j))) =
     ((i < length ls \<and> Q (ls ! i) \<and> (\<forall>j<i. \<not> Q (ls ! j)))
      \<or> (i = length ls \<and> Q l \<and> (\<forall>j<length ls. \<not> Q (ls ! j))))"
  by (auto simp: nth_append less_Suc_eq)

lemma no_first_match:
  "(\<forall>i. \<not> (i < length ls \<and> Q (ls ! i) \<and> (\<forall>j<i. \<not> Q (ls ! j)))) = (\<forall>j<length ls. \<not> Q (ls ! j))"
proof
  assume a: "\<forall>i. \<not> (i < length ls \<and> Q (ls ! i) \<and> (\<forall>j<i. \<not> Q (ls ! j)))"
  show "\<forall>j<length ls. \<not> Q (ls ! j)"
  proof (intro allI impI)
    fix j
    assume "j < length ls"
    then show "\<not> Q (ls ! j)"
    proof (induction j rule: less_induct)
      case (less j)
      then show ?case
        using a by (metis less_trans)
    qed
  qed
qed blast

lemma find_section_indices_other:
  "s \<notin> set names \<or> s = js ''constructor'' \<Longrightarrow> map_of (find_section_indices lines names) s = None"
proof (induction lines rule: rev_induct)
  case Nil
  then show ?case by (simp add: find_section_indices_def)
next
  case (snoc l ls)
  then show ?case
    by (auto simp: find_section_indices_snoc map_of_mark_sections read_index_Undefined)
qed

lemma find_section_indices_first_match:
  assumes "s \<in> set names" and "s \<noteq> js ''constructor''"
  shows "(map_of (find_section_indices lines names) s = Some i) =
           (i < length lines \<and> header_matches (normalizeHeader (lines ! i)) s
            \<and> (\<forall>j<i. \<not> header_matches (normalizeHeader (lines ! j)) s))"
proof (induction lines arbitrary: i rule: rev_induct)
  case Nil
  then show ?case by (simp add: find_section_indices_def)
next
  case (snoc l ls)
  let ?Q = "\<lambda>x. header_matches (normalizeHeader x) s"
  let ?si = "find_section_indices ls names"
  have none: "(map_of ?si s = None) = (\<forall>j<length ls. \<not> ?Q (ls ! j))"
  proof -
    have "(map_of ?si s = None) = (\<forall>i. map_of ?si s \<noteq> Some i)"
      by auto
    also have "\<dots> = (\<forall>i. \<not> (i < length ls \<and> ?Q (ls ! i) \<and> (\<forall>j<i. \<not> ?Q (ls ! j))))"
      by (simp only: snoc.IH)
    also have "\<dots> = (\<forall>j<length ls. \<not> ?Q (ls ! j))"
      by (rule no_first_match)
    finally show ?thesis .
  qed
  have step: "map_of (find_section_indices (ls @ [l]) names) s =
      (if ?Q l \<and> map_of ?si s = None then Some (length ls) else map_of ?si s)"
    using assms by (simp add: find_section_indices_snoc map_of_mark_sections read_index_Undefined)
  show ?case
  proof (cases "?Q l \<and> map_of ?si s = None")
    case True
    then have "\<forall>j<length ls. \<not> ?Q (ls ! j)"
      using none by simp
    with True show ?thesis
      unfolding step first_match_snoc [of i ls l ?Q] by auto
  next
    case False
    then have "\<not> ?Q l \<or> \<not> (\<forall>j<length ls. \<not> ?Q (ls ! j))"
      using none by simp
    with False show ?thesis
      unfolding step first_match_snoc [of i ls l ?Q] using snoc.IH [of i] by auto
  qed
qed

lemma map_of_store_sections:
  "(\<exists>x\<in>set xs. fst x = s) \<Longrightarrow> (\<forall>x\<in>set xs. fst x = s \<longrightarrow> f (snd x) (fst x) = v) \<Longrightarrow>
   map_of (foldl (\<lambda>result si. AList.update (fst si) (f (snd si) (fst si)) result) r xs) s = Some v"
proof (induction xs rule: rev_induct)
  case Nil
  then show ?case by simp
next
  case (snoc x xs)
  show ?case
  proof (cases "fst x = s")
    case True
    with snoc.prems show ?thesis by (simp add: update_conv')
  next
    case False
    with snoc.prems have "\<exists>x\<in>set xs. fst x = s" and "\<forall>x\<in>set xs. fst x = s \<longrightarrow> f (snd x) (fst x) = v"
      by auto
    then have "map_of (foldl (\<lambda>result si. AList.update (fst si) (f (snd si) (fst si)) result) r xs) s = Some v"
      by (rule snoc.IH)
    with False show ?thesis by (simp add: update_conv')
  qed
qed

lemma dom_store_sections:
  "fst ` set (foldl (\<lambda>result si. AList.update (fst si) (f (snd si) (fst si)) result) r xs)
     = fst ` set r \<union> fst ` set xs"
  by (induction xs rule: rev_induct) (auto simp: dom_update [simplified dom_map_of_conv_image_fst])

lemma fst_zip_upt: "fst ` set (zip xs [0..<length xs]) = set xs"
  by (metis length_upt map_fst_zip minus_nat.diff_0 set_map dual_order.refl)

lemma extractSectionsByLines_keys:
  "fst ` set (extractSectionsByLines text sectionNames) = normalizeHeader ` set sectionNames"
  using fst_zip_upt [of "map normalizeHeader sectionNames"]
  by (simp add: extractSectionsByLines_def Let_def dom_store_sections)

lemma extractSectionsByLines_unmatched:
  assumes "c \<in> set sectionNames"
    and "normalizeHeader c \<noteq> js ''constructor''"
    and "\<forall>l\<in>set (map trim (split_on 10 text)). \<not> header_matches (normalizeHeader l) (normalizeHeader c)"
  shows "map_of (extractSectionsByLines text sectionNames) (normalizeHeader c) = Some []"
proof -
  let ?lines = "map trim (split_on 10 text)"
  let ?names = "map normalizeHeader sectionNames"
  let ?si = "find_section_indices ?lines ?names"
  have in_names: "normalizeHeader c \<in> set ?names"
    using assms(1) by simp
  have "map_of ?si (normalizeHeader c) \<noteq> Some i" for i
  proof
    assume "map_of ?si (normalizeHeader c) = Some i"
    then have "i < length ?lines"
      and "header_matches (normalizeHeader (?lines ! i)) (normalizeHeader c)"
      using find_section_indices_first_match [OF in_names assms(2)] by blast+
    moreover from this(1) have "?lines ! i \<in> set ?lines"
      by (rule nth_mem)
    ultimately show False
      using assms(3) by blast
  qed
  then have "map_of ?si (normalizeHeader c) = None"
    by (cases "map_of ?si (normalizeHeader c)") auto
  then have u: "read_index ?si (normalizeHeader c) = Undefined"
    using assms(2) by (simp add: read_index_Undefined)
  have "normalizeHeader c \<in> fst ` set (zip ?names [0..<length ?names])"
    unfolding fst_zip_upt by (rule in_names)
  then have "\<exists>x\<in>set (zip ?names [0..<length ?names]). fst x = normalizeHeader c"
    by force
  moreover have "\<forall>x\<in>set (zip ?names [0..<length ?names]). fst x = normalizeHeader c \<longrightarrow>
      section_text ?lines ?si ?names (snd x) (fst x) = []"
    using u by (simp add: section_text_def)
  ultimately show ?thesis
    unfolding extractSectionsByLines_def Let_def
    by (rule map_of_store_sections)
qed

lemma handler_names_not_inherited:
  "js ''constructor'' \<notin> set (map normalizeHeader handler_sectionNames)"
  by code_simp

lemma take_length_prefix: "(take (length p) s = p) = prefix p s"
proof
  assume "take (length p) s = p"
  then show "prefix p s"
    by (metis take_is_prefix)
next
  assume "prefix p s"
  then show "take (length p) s = p"
    by (auto simp: prefix_def)
qed

lemma js_includes_sublist: "js_includes s p = sublist p s"
  by (induction s) (simp_all add: sublist_Cons_right take_length_prefix)

lemma header_matches_spec: "header_matches nl s = spec_header_match nl s"
  by (simp add: header_matches_def spec_header_match_def js_includes_sublist)

lemma first_match_recorded:
  assumes "s \<in> set names" and "s \<noteq> js ''constructor''"
  shows "(map_of (find_section_indices lines names) s = Some i) = first_match lines s i"
  unfolding first_match_def header_matches_spec [symmetric]
  using assms by (rule find_section_indices_first_match)

lemma find_end_gt: "i < endIdx \<Longrightarrow> i < find_end (Index i) endIdx slots"
  by (induction slots) (auto simp: js_gt_def split: slot.splits)

lemma section_text_start:
  assumes "map_of si s = Some i" and "i < length lines"
  shows "\<exists>e>i. section_text lines si names k s
           = trim (join (js ''\<newline>'') (take (e - Suc i) (drop (Suc i) lines)))"
proof -
  let ?e = "find_end (Index i) (length lines) (map (read_index si) (drop (k + 1) names))"
  have "i < ?e"
    using assms(2) by (rule find_end_gt)
  moreover have "section_text lines si names k s
      = trim (join (js ''\<newline>'') (take (?e - Suc i) (drop (Suc i) lines)))"
    using assms(1) by (simp add: section_text_def read_index_def slice_def slice_start_def)
  ultimately show ?thesis by blast
qed

lemma map_of_store_some:
  "\<exists>x\<in>set xs. fst x = s \<Longrightarrow>
   \<exists>x\<in>set xs. fst x = s \<and>
     map_of (foldl (\<lambda>result si. AList.update (fst si) (f (snd si) (fst si)) result) r xs) s
       = Some (f (snd x) s)"
proof (induction xs rule: rev_induct)
  case Nil
  then show ?case by simp
next
  case (snoc x xs)
  show ?case
  proof (cases "fst x = s")
    case True
    then show ?thesis by (auto simp: update_conv')
  next
    case False
    with snoc.prems have "\<exists>x\<in>set xs. fst x = s" by auto
    from snoc.IH [OF this] False show ?thesis by (auto simp: update_conv')
  qed
qed

lemma unmatched_candidates_empty_general:
  assumes "js ''constructor'' \<notin> set (map normalizeHeader sectionNames)"
  shows "unmatched_candidates_empty text sectionNames"
  unfolding unmatched_candidates_empty_def
proof
  fix c
  assume c: "c \<in> set sectionNames"
  then have nc: "normalizeHeader c \<noteq> js ''constructor''"
    using assms by (metis imageI set_map)
  have "normalizeHeader c \<in> fst ` set (extractSectionsByLines text sectionNames)"
    using c by (simp add: extractSectionsByLines_keys)
  then obtain v where v: "map_of (extractSectionsByLines text sectionNames) (normalizeHeader c) = Some v"
    by (metis domD dom_map_of_conv_image_fst)
  have "(\<forall>l\<in>set (map trim (split_on 10 text)).
           \<not> spec_header_match (normalizeHeader l) (normalizeHeader c)) \<longrightarrow> v = []"
    using extractSectionsByLines_unmatched [OF c nc, of "text"] v
    by (simp add: header_matches_spec)
  with v show "\<exists>v. map_of (extractSectionsByLines text sectionNames) (normalizeHeader c) = Some v
          \<and> ((\<forall>l\<in>set (map trim (split_on 10 text)).
                 \<not> spec_header_match (normalizeHeader l) (normalizeHeader c)) \<longrightarrow> v = [])"
    by blast
qed

lemma first_match_is_start_general:
  assumes "js ''constructor'' \<notin> set (map normalizeHeader sectionNames)"
  shows "first_match_is_start text sectionNames"
  unfolding first_match_is_start_def
proof (intro ballI allI impI)
  fix c i
  let ?lines = "map trim (split_on 10 text)"
  let ?names = "map normalizeHeader sectionNames"
  let ?si = "find_section_indices ?lines ?names"
  assume c: "c \<in> set sectionNames" and fm: "first_match ?lines (normalizeHeader c) i"
  have in_names: "normalizeHeader c \<in> set ?names"
    using c by simp
  have nc: "normalizeHeader c \<noteq> js ''constructor''"
    using assms c by (metis imageI set_map)
  have rec: "map_of ?si (normalizeHeader c) = Some i"
    using fm first_match_recorded [OF in_names nc] by simp
  have len: "i < length ?lines"
    using fm by (simp add: first_match_def)
  have "\<exists>x\<in>set (zip ?names [0..<length ?names]). fst x = normalizeHeader c"
    using in_names fst_zip_upt [of ?names] by force
  from map_of_store_some [OF this, of "section_text ?lines ?si ?names" "[]"]
  obtain k where "map_of (extractSectionsByLines text sectionNames) (normalizeHeader c)
      = Some (section_text ?lines ?si ?names k (normalizeHeader c))"
    by (auto simp: extractSectionsByLines_def Let_def)
  moreover obtain e where "e > i" and "section_text ?lines ?si ?names k (normalizeHeader c)
      = trim (join (js ''\<newline>'') (take (e - Suc i) (drop (Suc i) ?lines)))"
    using section_text_start [OF rec len] by blast
  ultimately show "map_of ?si (normalizeHeader c) = Some i
      \<and> (\<exists>e>i. map_of (extractSectionsByLines text sectionNames) (normalizeHeader c)
            = Some (trim (join (js ''\<newline>'') (take (e - Suc i) (drop (Suc i) ?lines)))))"
    using rec by auto
qed

text \<open>
  C7. For every document and every candidate list, the output of the Section Segmenter
  has a key for the normalized form of every candidate, and a candidate that no line of
  the document matches maps to the empty string. This holds for every candidate list that
  has no name normalizing to \<open>constructor\<close>, and so for the list of the handler, the one
  list the program passes. (A line that normalizes to the empty string, such as a blank
  line, is contained in every candidate and so matches each of them.)
\<close>

theorem segmenter_unmatched_empty:
  "(js ''constructor'' \<notin> set (map normalizeHeader sectionNames)
      \<longrightarrow> unmatched_candidates_empty text sectionNames)
   \<and> unmatched_candidates_empty text handler_sectionNames"
  using unmatched_candidates_empty_general handler_names_not_inherited by blast

theorem segmenter_unmatched_empty_witness:
  "js ''constructor'' \<notin> set (map normalizeHeader handler_sectionNames)
   \<and> js ''Education'' \<in> set handler_sectionNames
   \<and> list_all (\<lambda>l. \<not> spec_header_match (normalizeHeader l) (normalizeHeader (js ''Education'')))
        (map trim (split_on 10 (js ''Jane Doe\<newline>Skills\<newline>Go, Rust'')))
   \<and> map_of (extractSectionsByLines (js ''Jane Doe\<newline>Skills\<newline>Go, Rust'') handler_sectionNames)
        (normalizeHeader (js ''Education'')) = Some []"
proof -
  let ?text = "js ''Jane Doe\<newline>Skills\<newline>Go, Rust''"
  have h: "js ''constructor'' \<notin> set (map normalizeHeader handler_sectionNames)"
    by code_simp
  have c: "js ''Education'' \<in> set handler_sectionNames"
    by code_simp
  have u: "list_all (\<lambda>l. \<not> spec_header_match (normalizeHeader l) (normalizeHeader (js ''Education'')))
        (map trim (split_on 10 ?text))"
    by code_simp
  from h have "unmatched_candidates_empty ?text handler_sectionNames"
    using segmenter_unmatched_empty [of handler_sectionNames ?text] by blast
  with c obtain v where v: "map_of (extractSectionsByLines ?text handler_sectionNames)
        (normalizeHeader (js ''Education'')) = Some v"
    and e: "(\<forall>l\<in>set (map trim (split_on 10 ?text)).
              \<not> spec_header_match (normalizeHeader l) (normalizeHeader (js ''Education''))) \<longrightarrow> v = []"
    unfolding unmatched_candidates_empty_def by blast
  from u e have "v = []"
    by (simp only: list_all_iff)
  with h c u v show ?thesis
    by blast
qed

text \<open>
  C8. For each candidate, the recorded start index is the index of the first line whose
  normalized form equals, contains, or is contained in the normalized candidate, and the
  candidate's section starts right after that line: of two identical header lines only
  the first is the start boundary. This holds for every candidate list that has no name
  normalizing to \<open>constructor\<close>, and so for the list of the handler.
\<close>

theorem segmenter_first_match:
  "(js ''constructor'' \<notin> set (map normalizeHeader sectionNames)
      \<longrightarrow> first_match_is_start text sectionNames)
   \<and> first_match_is_start text handler_sectionNames"
  using first_match_is_start_general handler_names_not_inherited by blast

theorem segmenter_first_match_witness:
  "js ''constructor'' \<notin> set (map normalizeHeader handler_sectionNames)
   \<and> js ''Skills'' \<in> set handler_sectionNames
   \<and> first_match (map trim (split_on 10 (js ''Jane Doe\<newline>Skills\<newline>Skills\<newline>Go, Rust'')))
        (normalizeHeader (js ''Skills'')) 1
   \<and> map_of (find_section_indices
               (map trim (split_on 10 (js ''Jane Doe\<newline>Skills\<newline>Skills\<newline>Go, Rust'')))
               (map normalizeHeader handler_sectionNames))
        (normalizeHeader (js ''Skills'')) = Some 1
   \<and> map_of (extractSectionsByLines (js ''Jane Doe\<newline>Skills\<newline>Skills\<newline>Go, Rust'') handler_sectionNames)
        (normalizeHeader (js ''Skills'')) = Some (js ''Skills\<newline>Go, Rust'')"
proof -
  let ?text = "js ''Jane Doe\<newline>Skills\<newline>Skills\<newline>Go, Rust''"
  let ?lines = "map trim (split_on 10 ?text)"
  have h: "js ''constructor'' \<notin> set (map normalizeHeader handler_sectionNames)"
    by code_simp
  have c: "js ''Skills'' \<in> set handler_sectionNames"
    by code_simp
  have m1: "1 < length ?lines \<and> spec_header_match (normalizeHeader (?lines ! 1)) (normalizeHeader (js ''Skills''))"
    by code_simp
  have m0: "\<not> spec_header_match (normalizeHeader (?lines ! 0)) (normalizeHeader (js ''Skills''))"
    by code_simp
  have "\<forall>j<1. \<not> spec_header_match (normalizeHeader (?lines ! j)) (normalizeHeader (js ''Skills''))"
    using m0 by (metis less_one)
  with m1 have fm: "first_match ?lines (normalizeHeader (js ''Skills'')) 1"
    unfolding first_match_def by blast
  from h have "first_match_is_start ?text handler_sectionNames"
    using segmenter_first_match [of handler_sectionNames ?text] by blast
  with c fm have r: "map_of (find_section_indices ?lines (map normalizeHeader handler_sectionNames))
        (normalizeHeader (js ''Skills'')) = Some 1"
    unfolding first_match_is_start_def by blast
  have x: "map_of (extractSectionsByLines ?text handler_sectionNames)
        (normalizeHeader (js ''Skills'')) = Some (js ''Skills\<newline>Go, Rust'')"
    by code_simp
  from h c fm r x show ?thesis
    by blast
qed

text \<open>
  The name \<open>constructor\<close> is set apart because of how \<open>sectionIndices\<close> is read: called on
  its own with that candidate, \<open>extractSectionsByLines\<close> records no index and returns the
  whole document as the section. The handler never passes that name.
\<close>

lemma extractSectionsByLines_constructor_unmatched:
  "\<not> header_matches (normalizeHeader (js ''hello'')) (normalizeHeader (js ''constructor''))
   \<and> extractSectionsByLines (js ''hello'') [js ''constructor'']
       = [(js ''constructor'', js ''hello'')]"
  by code_simp

lemma extractSectionsByLines_constructor_start:
  "find_section_indices
     (map trim (split_on 10 (js ''intro\<newline>Constructor\<newline>Constructor\<newline>body'')))
     [normalizeHeader (js ''Constructor'')] = []
   \<and> extractSectionsByLines (js ''intro\<newline>Constructor\<newline>Constructor\<newline>body'') [js ''Constructor'']
       = [(js ''constructor'', js ''intro\<newline>Constructor\<newline>Constructor\<newline>body'')]"
  by code_simp

section \<open>Properties of the Result Assembler\<close>

lemma get_key_set_key:
  "get_key (set_key r k v) k' = (if k' = k then Some v else get_key r k')"
  by (cases r) (simp_all add: get_key_def update_conv')

lemma get_key_Record: "get_key (Record ps) k = map_of ps k"
  by (simp add: get_key_def)

lemma get_key_ArrayWith: "get_key (ArrayWith xs ps) k = map_of ps k"
  by (simp add: get_key_def)

lemma requiredKeys_fallback:
  "key \<in> set requiredKeys \<Longrightarrow> \<exists>v. map_of (parsedFallback p) key = Some v \<and> v \<noteq> JNull"
  by (auto simp: requiredKeys_def parsedFallback_def js_def json_of_skills_def)

lemma fallback_positions:
  "map_of (parsedFallback p) (js ''positions'')
     = Some (JArr (map json_of_experience (work_experience p)))"
  by (simp add: parsedFallback_def js_def)

lemma get_key_patch_key:
  "get_key (patch_key fb r k') k =
     (if k = k' \<and> needs_fallback (get_key r k) \<and> map_of fb k \<noteq> None
      then map_of fb k else get_key r k)"
  by (auto simp: patch_key_def get_key_set_key split: option.splits)

lemma get_key_foldl_patch_key:
  "get_key (foldl (patch_key fb) r ks) k =
     (if k \<in> set ks \<and> needs_fallback (get_key r k) \<and> map_of fb k \<noteq> None
      then map_of fb k else get_key r k)"
proof (induction ks arbitrary: r)
  case Nil
  then show ?case by simp
next
  case (Cons k' ks)
  show ?case
    by (auto simp: Cons.IH get_key_patch_key)
qed

lemma get_key_patch_keys:
  "key \<in> set requiredKeys \<Longrightarrow>
   get_key (patch_keys (parsedFallback p) r) key =
     (if needs_fallback (get_key r key) then map_of (parsedFallback p) key else get_key r key)"
  using requiredKeys_fallback [of key p]
  by (auto simp: patch_keys_def get_key_foldl_patch_key)

lemma get_key_positions_fallback:
  "get_key (positions_fallback p r) k =
     (if k = js ''positions'' \<and> positions_empty (get_key r (js ''positions'')) \<and> work_experience p \<noteq> []
      then Some (JArr (map json_of_experience (work_experience p))) else get_key r k)"
  by (simp add: positions_fallback_def get_key_set_key)

lemma needs_fallback_not_null: "\<not> needs_fallback (Some v) \<Longrightarrow> v \<noteq> JNull"
  by auto

lemma parsedFallback_spec: "map_of (parsedFallback p) key = spec_fallback p key"
  by (simp add: parsedFallback_def spec_fallback_def js_def)

lemma requiredKeys_spec: "(key \<in> set requiredKeys) = (spec_fallback p key \<noteq> None)"
  by (simp add: requiredKeys_def spec_fallback_def js_def)

lemma needs_fallback_spec: "needs_fallback v = spec_missing v"
  by (cases v rule: needs_fallback.cases) (simp_all add: spec_missing_def)

lemma spec_fallback_not_null: "spec_fallback p key = Some fb \<Longrightarrow> fb \<noteq> JNull"
  by (auto simp: spec_fallback_def json_of_skills_def split: if_splits)

lemma spec_fallback_positions:
  "spec_fallback p (js ''positions'') = Some (JArr (map json_of_experience (work_experience p)))"
  by (simp add: spec_fallback_def js_def)

lemma filled_fallback:
  assumes "spec_fallback p key = Some fb" and "spec_missing ext"
  shows "key_filled ext fb key (positions_fallback p (Record (parsedFallback p)))"
  using assms spec_fallback_not_null [OF assms(1)] spec_fallback_positions [of p]
  by (auto simp: key_filled_def get_key_positions_fallback get_key_Record parsedFallback_spec)

lemma filled_patched:
  assumes "spec_fallback p key = Some fb" and "get_key r key = ext"
  shows "key_filled ext fb key (positions_fallback p (patch_keys (parsedFallback p) r))"
proof -
  have k: "key \<in> set requiredKeys"
    using assms(1) by (simp add: requiredKeys_spec [of key p])
  have nn: "fb \<noteq> JNull"
    using assms(1) by (rule spec_fallback_not_null)
  have g: "get_key (patch_keys (parsedFallback p) r) key = (if spec_missing ext then Some fb else ext)"
    using assms by (simp add: get_key_patch_keys [OF k] needs_fallback_spec parsedFallback_spec)
  show ?thesis
  proof (cases "spec_missing ext")
    case True
    with g nn assms(1) spec_fallback_positions [of p] show ?thesis
      by (auto simp: key_filled_def get_key_positions_fallback)
  next
    case False
    then obtain ev where ev: "ext = Some ev" "ev \<noteq> JNull"
      by (cases ext) (auto simp: spec_missing_def)
    with False g nn assms(1) spec_fallback_positions [of p] show ?thesis
      by (auto simp: key_filled_def get_key_positions_fallback)
  qed
qed

text \<open>
  C1. Whatever the external structuring output is (absent, \<open>null\<close>, the empty object, an
  object with keys missing or holding \<open>null\<close>, empty lists or empty mappings, or any other
  value except a non-empty string, on which the handler throws), the assembled record
  holds every one of the seven required keys with a value that is not \<open>null\<close>. Where the
  external output's value for a key is missing, \<open>null\<close>, an empty list or an empty mapping,
  the key holds its heuristic-derived fallback; elsewhere it holds the external output's
  own value (or, for \<open>positions\<close>, the fallback).
\<close>

theorem assembler_completeness:
  assumes "\<not> key_test_throws academicJson"
  shows "\<exists>r. assemble academicJson p = Inr r
           \<and> (\<forall>key fb. spec_fallback p key = Some fb \<longrightarrow>
                 key_filled (external_value academicJson key) fb key r)"
proof (cases academicJson)
  case None
  then show ?thesis
    by (simp add: assemble_def patch_missing_def filled_fallback external_value_def spec_missing_def)
next
  case (Some v)
  show ?thesis
  proof (cases "\<not> truthy v \<or> own_key_count v = 0")
    case True
    then have "\<forall>key. spec_missing (external_value academicJson key)"
      using Some by (cases v) (auto simp: external_value_def spec_missing_def)
    with Some True show ?thesis
      by (simp add: assemble_def patch_missing_def filled_fallback)
  next
    case False
    show ?thesis
    proof (cases v)
      case (JObj ps)
      have "\<forall>key fb. spec_fallback p key = Some fb \<longrightarrow>
              key_filled (external_value academicJson key) fb key
                (positions_fallback p (patch_keys (parsedFallback p) (Record ps)))"
        using Some JObj by (auto intro!: filled_patched simp: get_key_Record external_value_def)
      with Some False JObj show ?thesis
        by (simp add: assemble_def patch_missing_def)
    next
      case (JArr xs)
      have "\<forall>key fb. spec_fallback p key = Some fb \<longrightarrow>
              key_filled (external_value academicJson key) fb key
                (positions_fallback p (patch_keys (parsedFallback p) (ArrayWith xs [])))"
        using Some JArr by (auto intro!: filled_patched simp: get_key_ArrayWith external_value_def)
      with Some False JArr show ?thesis
        by (simp add: assemble_def patch_missing_def)
    next
      case (JStr s)
      with assms Some False show ?thesis by (simp add: key_test_throws_def)
    qed (use False in simp_all)
  qed
qed

theorem assembler_completeness_witness:
  "\<not> key_test_throws (Some (JObj [(js ''profile'', JNull), (js ''education'', JArr []),
        (js ''skills'', JObj []), (js ''awards'', JArr [JStr (js ''Best Paper'')])]))
   \<and> (\<exists>r. assemble (Some (JObj [(js ''profile'', JNull), (js ''education'', JArr []),
               (js ''skills'', JObj []), (js ''awards'', JArr [JStr (js ''Best Paper'')])]))
             \<lparr>p_name = js ''Jane Doe'', p_email = js ''jane@uni.edu'', p_phone = js ''555-123-4567'',
              p_location = js ''Austin, TX'',
              work_experience = [\<lparr>title = Some (js ''Senior Engineer''), organization = Some (js ''Acme Corp''),
                                   dates = None, location = None, summary = None, highlights = Some []\<rparr>],
              education = [\<lparr>edu_degree = Some (js ''PhD in Physics''), edu_institution = Some (js ''MIT''),
                             edu_dates = None, edu_location = None, edu_honors = None\<rparr>],
              skills = [(js ''Languages'', [js ''Go'', js ''Rust''])]\<rparr> = Inr r
        \<and> get_key r (js ''profile'')
            = Some (JObj [(js ''name'', JStr (js ''Jane Doe'')), (js ''email'', JStr (js ''jane@uni.edu'')),
                          (js ''phone'', JStr (js ''555-123-4567'')), (js ''location'', JStr (js ''Austin, TX'')),
                          (js ''summary'', JStr []), (js ''social'', JArr [])])
        \<and> get_key r (js ''education'')
            = Some (JArr [JObj [(js ''degree'', JStr (js ''PhD in Physics'')), (js ''institution'', JStr (js ''MIT''))]])
        \<and> get_key r (js ''positions'')
            = Some (JArr [JObj [(js ''title'', JStr (js ''Senior Engineer'')),
                                (js ''organization'', JStr (js ''Acme Corp'')), (js ''highlights'', JArr [])]])
        \<and> get_key r (js ''publications'') = Some (JArr [])
        \<and> get_key r (js ''projects'') = Some (JArr [])
        \<and> get_key r (js ''skills'')
            = Some (JObj [(js ''Languages'', JArr [JStr (js ''Go''), JStr (js ''Rust'')])])
        \<and> get_key r (js ''awards'') = Some (JArr [JStr (js ''Best Paper'')]))"
proof -
  let ?x = "Some (JObj [(js ''profile'', JNull), (js ''education'', JArr []),
        (js ''skills'', JObj []), (js ''awards'', JArr [JStr (js ''Best Paper'')])])"
  let ?p = "\<lparr>p_name = js ''Jane Doe'', p_email = js ''jane@uni.edu'', p_phone = js ''555-123-4567'',
              p_location = js ''Austin, TX'',
              work_experience = [\<lparr>title = Some (js ''Senior Engineer''), organization = Some (js ''Acme Corp''),
                                   dates = None, location = None, summary = None, highlights = Some []\<rparr>],
              education = [\<lparr>edu_degree = Some (js ''PhD in Physics''), edu_institution = Some (js ''MIT''),
                             edu_dates = None, edu_location = None, edu_honors = None\<rparr>],
              skills = [(js ''Languages'', [js ''Go'', js ''Rust''])]\<rparr>"
  have h: "\<not> key_test_throws ?x"
    by (simp add: key_test_throws_def)
  from assembler_completeness [OF h, of ?p]
  obtain r where r: "assemble ?x ?p = Inr r"
    and f: "\<And>key fb. spec_fallback ?p key = Some fb \<Longrightarrow> key_filled (external_value ?x key) fb key r"
    by blast
  have m: "spec_missing (external_value ?x (js ''profile''))"
    "spec_missing (external_value ?x (js ''education''))"
    "spec_missing (external_value ?x (js ''positions''))"
    "spec_missing (external_value ?x (js ''publications''))"
    "spec_missing (external_value ?x (js ''projects''))"
    "spec_missing (external_value ?x (js ''skills''))"
    by code_simp+
  have a: "external_value ?x (js ''awards'') = Some (JArr [JStr (js ''Best Paper'')])"
    "\<not> spec_missing (external_value ?x (js ''awards''))" "js ''awards'' \<noteq> js ''positions''"
    by code_simp+
  have s: "spec_fallback ?p (js ''profile'')
            = Some (JObj [(js ''name'', JStr (js ''Jane Doe'')), (js ''email'', JStr (js ''jane@uni.edu'')),
                          (js ''phone'', JStr (js ''555-123-4567'')), (js ''location'', JStr (js ''Austin, TX'')),
                          (js ''summary'', JStr []), (js ''social'', JArr [])])"
    "spec_fallback ?p (js ''education'')
            = Some (JArr [JObj [(js ''degree'', JStr (js ''PhD in Physics'')), (js ''institution'', JStr (js ''MIT''))]])"
    "spec_fallback ?p (js ''positions'')
            = Some (JArr [JObj [(js ''title'', JStr (js ''Senior Engineer'')),
                                (js ''organization'', JStr (js ''Acme Corp'')), (js ''highlights'', JArr [])]])"
    "spec_fallback ?p (js ''publications'') = Some (JArr [])"
    "spec_fallback ?p (js ''projects'') = Some (JArr [])"
    "spec_fallback ?p (js ''skills'')
            = Some (JObj [(js ''Languages'', JArr [JStr (js ''Go''), JStr (js ''Rust'')])])"
    "spec_fallback ?p (js ''awards'') = Some (JArr [])"
    by code_simp+
  have "get_key r (js ''profile'')
            = Some (JObj [(js ''name'', JStr (js ''Jane Doe'')), (js ''email'', JStr (js ''jane@uni.edu'')),
                          (js ''phone'', JStr (js ''555-123-4567'')), (js ''location'', JStr (js ''Austin, TX'')),
                          (js ''summary'', JStr []), (js ''social'', JArr [])])"
    using f [OF s(1)] m(1) by (auto simp: key_filled_def)
  moreover have "get_key r (js ''education'')
            = Some (JArr [JObj [(js ''degree'', JStr (js ''PhD in Physics'')), (js ''institution'', JStr (js ''MIT''))]])"
    using f [OF s(2)] m(2) by (auto simp: key_filled_def)
  moreover have "get_key r (js ''positions'')
            = Some (JArr [JObj [(js ''title'', JStr (js ''Senior Engineer'')),
                                (js ''organization'', JStr (js ''Acme Corp'')), (js ''highlights'', JArr [])]])"
    using f [OF s(3)] m(3) by (auto simp: key_filled_def)
  moreover have "get_key r (js ''publications'') = Some (JArr [])"
    using f [OF s(4)] m(4) by (auto simp: key_filled_def)
  moreover have "get_key r (js ''projects'') = Some (JArr [])"
    using f [OF s(5)] m(5) by (auto simp: key_filled_def)
  moreover have "get_key r (js ''skills'')
            = Some (JObj [(js ''Languages'', JArr [JStr (js ''Go''), JStr (js ''Rust'')])])"
    using f [OF s(6)] m(6) by (auto simp: key_filled_def)
  moreover have "get_key r (js ''awards'') = Some (JArr [JStr (js ''Best Paper'')])"
    using f [OF s(7)] a by (auto simp: key_filled_def)
  ultimately show ?thesis
    using h r by blast
qed

text \<open>
  C6. If the positions value is still empty after the key-by-key fallback and the
  heuristic work-experience list is not empty, the final positions is the heuristic list.
  In particular, when the external output has \<open>positions: []\<close> and the heuristic list has
  two entries, the final positions consists of exactly those two entries.
\<close>

theorem positions_fallback_rule:
  "(patch_missing academicJson p = Inr r0 \<and> positions_empty (get_key r0 (js ''positions''))
      \<and> work_experience p \<noteq> []
     \<longrightarrow> (\<exists>r. assemble academicJson p = Inr r
            \<and> get_key r (js ''positions'') = Some (JArr (map json_of_experience (work_experience p)))))
   \<and> (map_of ps (js ''positions'') = Some (JArr []) \<and> work_experience p = [e1, e2]
     \<longrightarrow> (\<exists>r. assemble (Some (JObj ps)) p = Inr r
            \<and> get_key r (js ''positions'') = Some (JArr [json_of_experience e1, json_of_experience e2])))"
proof (intro conjI impI)
  assume "patch_missing academicJson p = Inr r0 \<and> positions_empty (get_key r0 (js ''positions''))
      \<and> work_experience p \<noteq> []"
  then show "\<exists>r. assemble academicJson p = Inr r
            \<and> get_key r (js ''positions'') = Some (JArr (map json_of_experience (work_experience p)))"
    by (simp add: assemble_def get_key_positions_fallback)
next
  assume a: "map_of ps (js ''positions'') = Some (JArr []) \<and> work_experience p = [e1, e2]"
  then have ne: "ps \<noteq> []" by auto
  have k: "js ''positions'' \<in> set requiredKeys"
    by (simp add: requiredKeys_def)
  have "get_key (patch_keys (parsedFallback p) (Record ps)) (js ''positions'')
          = Some (JArr [json_of_experience e1, json_of_experience e2])"
    using a by (simp add: get_key_patch_keys [OF k] get_key_Record fallback_positions)
  with a ne show "\<exists>r. assemble (Some (JObj ps)) p = Inr r
            \<and> get_key r (js ''positions'') = Some (JArr [json_of_experience e1, json_of_experience e2])"
    by (simp add: assemble_def patch_missing_def get_key_positions_fallback)
qed

theorem positions_fallback_rule_witness:
  "(patch_missing (Some (JObj [(js ''positions'', JStr [])]))
        \<lparr>p_name = [], p_email = [], p_phone = [], p_location = [],
         work_experience = [\<lparr>title = Some (js ''Lead Engineer''), organization = None, dates = None,
                              location = None, summary = None, highlights = Some []\<rparr>],
         education = [], skills = []\<rparr>
      = Inr (Record [(js ''positions'', JStr []),
                     (js ''profile'', JObj [(js ''name'', JStr []), (js ''email'', JStr []),
                                            (js ''phone'', JStr []), (js ''location'', JStr []),
                                            (js ''summary'', JStr []), (js ''social'', JArr [])]),
                     (js ''education'', JArr []), (js ''publications'', JArr []),
                     (js ''projects'', JArr []), (js ''skills'', JObj []), (js ''awards'', JArr [])])
    \<and> positions_empty (get_key (Record [(js ''positions'', JStr []),
                     (js ''profile'', JObj [(js ''name'', JStr []), (js ''email'', JStr []),
                                            (js ''phone'', JStr []), (js ''location'', JStr []),
                                            (js ''summary'', JStr []), (js ''social'', JArr [])]),
                     (js ''education'', JArr []), (js ''publications'', JArr []),
                     (js ''projects'', JArr []), (js ''skills'', JObj []), (js ''awards'', JArr [])])
          (js ''positions''))
    \<and> (\<exists>r. assemble (Some (JObj [(js ''positions'', JStr [])]))
              \<lparr>p_name = [], p_email = [], p_phone = [], p_location = [],
               work_experience = [\<lparr>title = Some (js ''Lead Engineer''), organization = None, dates = None,
                              location = None, summary = None, highlights = Some []\<rparr>],
               education = [], skills = []\<rparr> = Inr r
           \<and> get_key r (js ''positions'')
               = Some (JArr [JObj [(js ''title'', JStr (js ''Lead Engineer'')), (js ''highlights'', JArr [])]])))
   \<and> (map_of [(js ''positions'', JArr [])] (js ''positions'') = Some (JArr [])
    \<and> (\<exists>r. assemble (Some (JObj [(js ''positions'', JArr [])]))
              \<lparr>p_name = [], p_email = [], p_phone = [], p_location = [],
               work_experience = [\<lparr>title = Some (js ''Lead Engineer''), organization = None, dates = None,
                              location = None, summary = None, highlights = Some []\<rparr>,
                                  \<lparr>title = Some (js ''Intern''), organization = None, dates = None,
                              location = None, summary = None, highlights = Some []\<rparr>],
               education = [], skills = []\<rparr> = Inr r
           \<and> get_key r (js ''positions'')
               = Some (JArr [JObj [(js ''title'', JStr (js ''Lead Engineer'')), (js ''highlights'', JArr [])],
                             JObj [(js ''title'', JStr (js ''Intern'')), (js ''highlights'', JArr [])]])))"
proof -
  let ?e1 = "\<lparr>title = Some (js ''Lead Engineer''), organization = None, dates = None,
              location = None, summary = None, highlights = Some []\<rparr>"
  let ?e2 = "\<lparr>title = Some (js ''Intern''), organization = None, dates = None,
              location = None, summary = None, highlights = Some []\<rparr>"
  let ?p1 = "\<lparr>p_name = [], p_email = [], p_phone = [], p_location = [],
              work_experience = [?e1], education = [], skills = []\<rparr>"
  let ?p2 = "\<lparr>p_name = [], p_email = [], p_phone = [], p_location = [],
              work_experience = [?e1, ?e2], education = [], skills = []\<rparr>"
  let ?r0 = "Record [(js ''positions'', JStr []),
                     (js ''profile'', JObj [(js ''name'', JStr []), (js ''email'', JStr []),
                                            (js ''phone'', JStr []), (js ''location'', JStr []),
                                            (js ''summary'', JStr []), (js ''social'', JArr [])]),
                     (js ''education'', JArr []), (js ''publications'', JArr []),
                     (js ''projects'', JArr []), (js ''skills'', JObj []), (js ''awards'', JArr [])]"
  have h1: "patch_missing (Some (JObj [(js ''positions'', JStr [])])) ?p1 = Inr ?r0"
    by code_simp
  have h1': "positions_empty (get_key ?r0 (js ''positions''))"
    by code_simp
  have h1'': "work_experience ?p1 \<noteq> []"
    by simp
  have h2: "map_of [(js ''positions'', JArr [])] (js ''positions'') = Some (JArr [])
      \<and> work_experience ?p2 = [?e1, ?e2]"
    by simp
  have j1: "json_of_experience ?e1 = JObj [(js ''title'', JStr (js ''Lead Engineer'')), (js ''highlights'', JArr [])]"
    by code_simp
  have j2: "json_of_experience ?e2 = JObj [(js ''title'', JStr (js ''Intern'')), (js ''highlights'', JArr [])]"
    by code_simp
  from h1 h1' h1'' have c1: "\<exists>r. assemble (Some (JObj [(js ''positions'', JStr [])])) ?p1 = Inr r
      \<and> get_key r (js ''positions'') = Some (JArr (map json_of_experience (work_experience ?p1)))"
    using positions_fallback_rule [of "Some (JObj [(js ''positions'', JStr [])])" ?p1 ?r0 "[]" ?e1 ?e2] by blast
  from h2 have c2: "\<exists>r. assemble (Some (JObj [(js ''positions'', JArr [])])) ?p2 = Inr r
      \<and> get_key r (js ''positions'') = Some (JArr [json_of_experience ?e1, json_of_experience ?e2])"
    using positions_fallback_rule [of None ?p2 ?r0 "[(js ''positions'', JArr [])]" ?e1 ?e2] by blast
  from c1 have c1': "\<exists>r. assemble (Some (JObj [(js ''positions'', JStr [])])) ?p1 = Inr r
      \<and> get_key r (js ''positions'') = Some (JArr [JObj [(js ''title'', JStr (js ''Lead Engineer'')), (js ''highlights'', JArr [])]])"
    using j1 by simp
  from c2 have c2': "\<exists>r. assemble (Some (JObj [(js ''positions'', JArr [])])) ?p2 = Inr r
      \<and> get_key r (js ''positions'') = Some (JArr [JObj [(js ''title'', JStr (js ''Lead Engineer'')), (js ''highlights'', JArr [])],
                             JObj [(js ''title'', JStr (js ''Intern'')), (js ''highlights'', JArr [])]])"
    using j1 j2 by simp
  show ?thesis
    using h1 h1' h2 c1' c2' by blast
qed

end
